theory Spec2Isabelle
  imports Main "HOL-Library.AList" "HOL-Library.Char_ord" "HOL-Library.List_Lexorder"
    "HOL-Library.Sublist"
begin

section \<open>Double arithmetic\<close>

text \<open>
  Quantities are C++ \<open>double\<close>s, taken as IEEE 754 binary64 numbers with rounding to
  nearest, ties to even. A finite number is a sign, a mantissa and an exponent, standing
  for \<open>m * 2 ^ e\<close> (negated when the sign is set); the numbers of the format have
  \<open>m < 2 ^ 53\<close> and \<open>- 1074 \<le> e \<le> 971\<close>, with \<open>2 ^ 52 \<le> m\<close> unless \<open>e = - 1074\<close>. Besides
  them there are the two infinities and NaN (one value: its sign and payload are not
  modelled).
\<close>

datatype double = Finite bool nat int | Infinity bool | NaN

definition dzero :: double where
  "dzero = Finite False 0 (- 1074)"

fun is_nan :: "double \<Rightarrow> bool" where
  "is_nan NaN = True"
| "is_nan x = False"

fun is_finite :: "double \<Rightarrow> bool" where
  "is_finite (Finite s m e) = True"
| "is_finite x = False"

fun exponent :: "double \<Rightarrow> int" where
  "exponent (Finite s m e) = e"
| "exponent x = 0"

fun rank :: "double \<Rightarrow> int" where
  "rank (Infinity s) = (if s then - 1 else 1)"
| "rank x = 0"

text \<open>A finite number as an integer multiple of \<open>2 ^ e0\<close>, for \<open>e0\<close> at most its exponent.\<close>

fun scaled :: "int \<Rightarrow> double \<Rightarrow> int" where
  "scaled e0 (Finite s m e) = (if s then - int m else int m) * 2 ^ nat (e - e0)"
| "scaled e0 x = 0"

definition common_exponent :: "double \<Rightarrow> double \<Rightarrow> int" where
  "common_exponent a b = min (exponent a) (exponent b)"

text \<open>
  The comparisons \<open><\<close>, \<open><=\<close> and \<open>==\<close> of the language: false whenever an operand is
  NaN; the two zeros are equal.
\<close>

definition dlt :: "double \<Rightarrow> double \<Rightarrow> bool" where
  "dlt a b =
     (\<not> is_nan a \<and> \<not> is_nan b \<and>
      (rank a < rank b \<or>
       rank a = rank b \<and> scaled (common_exponent a b) a < scaled (common_exponent a b) b))"

definition dle :: "double \<Rightarrow> double \<Rightarrow> bool" where
  "dle a b =
     (\<not> is_nan a \<and> \<not> is_nan b \<and>
      (rank a < rank b \<or>
       rank a = rank b \<and> scaled (common_exponent a b) a \<le> scaled (common_exponent a b) b))"

definition deq :: "double \<Rightarrow> double \<Rightarrow> bool" where
  "deq a b =
     (\<not> is_nan a \<and> \<not> is_nan b \<and> rank a = rank b \<and>
      scaled (common_exponent a b) a = scaled (common_exponent a b) b)"

text \<open>
  Rounding the positive rational \<open>p / q\<close> to the nearest number of the format: the
  exponent is chosen so that the mantissa has 53 bits (or is \<open>- 1074\<close>, for the subnormal
  numbers), the mantissa is the quotient rounded to nearest, ties to even, and a result
  beyond the largest finite number is an infinity.
\<close>

fun bit_length :: "nat \<Rightarrow> nat" where
  "bit_length n = (if n = 0 then 0 else Suc (bit_length (n div 2)))"

declare bit_length.simps [simp del]

definition div_half_even :: "nat \<Rightarrow> nat \<Rightarrow> nat" where
  "div_half_even n d =
     (let q = n div d; r = n mod d
      in if 2 * r < d then q else if d < 2 * r then q + 1 else if even q then q else q + 1)"

definition at_least_pow2 :: "nat \<Rightarrow> nat \<Rightarrow> int \<Rightarrow> bool" where
  "at_least_pow2 p q k = (if 0 \<le> k then q * 2 ^ nat k \<le> p else q \<le> p * 2 ^ nat (- k))"

definition round_ratio :: "bool \<Rightarrow> nat \<Rightarrow> nat \<Rightarrow> double" where
  "round_ratio s p q =
     (if p = 0 then Finite s 0 (- 1074)
      else
        let k0 = int (bit_length p) - int (bit_length q);
            k = (if at_least_pow2 p q k0 then k0 else k0 - 1);
            e = max (- 1074) (k - 52);
            m = (if 0 \<le> e then div_half_even p (q * 2 ^ nat e)
                 else div_half_even (p * 2 ^ nat (- e)) q);
            m' = (if m = 2 ^ 53 then 2 ^ 52 else m);
            e' = (if m = 2 ^ 53 then e + 1 else e)
        in if 971 < e' then Infinity s else Finite s m' e')"

fun dneg :: "double \<Rightarrow> double" where
  "dneg (Finite s m e) = Finite (\<not> s) m e"
| "dneg (Infinity s) = Infinity (\<not> s)"
| "dneg NaN = NaN"

text \<open>
  Addition: the exact sum of two finite numbers, rounded; an exact zero is positive
  unless both operands are negative. Subtraction adds the negated operand.
\<close>

fun dadd :: "double \<Rightarrow> double \<Rightarrow> double" where
  "dadd NaN b = NaN"
| "dadd a NaN = NaN"
| "dadd (Infinity s) (Infinity t) = (if s = t then Infinity s else NaN)"
| "dadd (Infinity s) (Finite t m e) = Infinity s"
| "dadd (Finite s m e) (Infinity t) = Infinity t"
| "dadd (Finite s1 m1 e1) (Finite s2 m2 e2) =
     (let e = min e1 e2;
          x = scaled e (Finite s1 m1 e1) + scaled e (Finite s2 m2 e2)
      in if x = 0 then Finite (s1 \<and> s2) 0 (- 1074)
         else if 0 \<le> e then round_ratio (x < 0) (nat \<bar>x\<bar> * 2 ^ nat e) 1
         else round_ratio (x < 0) (nat \<bar>x\<bar>) (2 ^ nat (- e)))"

definition dsub :: "double \<Rightarrow> double \<Rightarrow> double" where
  "dsub a b = dadd a (dneg b)"

text \<open>The double that a natural number converts to.\<close>

definition double_of_nat :: "nat \<Rightarrow> double" where
  "double_of_nat n = round_ratio False n 1"

section \<open>Data model\<close>

text \<open>
  The program keeps one \<open>Refrigerator\<close> object: an \<open>unordered_map\<close> from product names
  to \<open>Product\<close> objects and a \<open>vector\<close> of log strings. Strings are byte lists, compared
  as \<open>std::string\<close> compares them: bytewise lexicographically, a proper prefix being
  smaller.

  The \<open>unordered_map\<close> is an association list in iteration order. The position a new key
  takes in that order is unspecified in C++; the model appends it. Lookups go through
  \<open>map_of\<close>, so no statement below depends on that choice.
\<close>

record Product =
  name :: string
  quantity :: double
  expirationDate :: string

definition getName :: "Product \<Rightarrow> string" where
  "getName p = name p"

definition getQuantity :: "Product \<Rightarrow> double" where
  "getQuantity p = quantity p"

definition getExpirationDate :: "Product \<Rightarrow> string" where
  "getExpirationDate p = expirationDate p"

definition addQuantity :: "double \<Rightarrow> Product \<Rightarrow> Product" where
  "addQuantity additionalQuantity p = p\<lparr>quantity := dadd (quantity p) additionalQuantity\<rparr>"

definition consumeQuantity :: "double \<Rightarrow> Product \<Rightarrow> Product" where
  "consumeQuantity consumedQuantity p = p\<lparr>quantity := dsub (quantity p) consumedQuantity\<rparr>"

record Refrigerator =
  products :: "(string \<times> Product) list"
  history :: "string list"

definition empty_refrigerator :: Refrigerator where
  "empty_refrigerator = \<lparr>products = [], history = []\<rparr>"

text \<open>
  What the methods write to \<open>cout\<close>, one constructor per line of output. Numbers and
  names stay unrendered arguments.
\<close>

datatype message =
    ErrProductQuantity      \<comment> \<open>Error: Product quantity must be greater than zero.\<close>
  | ErrConsumedQuantity     \<comment> \<open>Error: Consumed quantity must be greater than zero.\<close>
  | ProductNotFound         \<comment> \<open>Product not found in refrigerator.\<close>
  | NotEnoughQuantity       \<comment> \<open>Not enough quantity to consume.\<close>
  | StatusHeader
  | StatusEmpty             \<comment> \<open>The refrigerator is empty.\<close>
  | StatusLine string double string
  | HistoryHeader
  | HistoryEmpty            \<comment> \<open>No actions recorded yet.\<close>
  | HistoryLine string
  | ExpiryHeader
  | ExpiredProduct string   \<comment> \<open>Product ... has expired. Please remove it.\<close>
  | NoExpired               \<comment> \<open>No expired products found.\<close>
  | ShoppingHeader
  | ShoppingEmpty           \<comment> \<open>No items to suggest for shopping.\<close>
  | ShoppingLine string double

datatype exn = InvalidArgument | OutOfRange

section \<open>Library functions on strings\<close>

subsection \<open>\<open>std::to_string(double)\<close>\<close>

text \<open>
  \<open>std::to_string\<close> formats as \<open>printf("%f")\<close> does: for a finite number the exact value
  rounded to six decimals (ties to even), written as an optional minus sign, the integer
  digits, a point and six digits; \<open>inf\<close>, \<open>-inf\<close> and \<open>nan\<close> for the others (the sign
  that \<open>printf\<close> may write before \<open>nan\<close> is not modelled).
\<close>

definition digit_char :: "nat \<Rightarrow> char" where
  "digit_char n = ''0123456789'' ! (n mod 10)"

fun dec_digits :: "nat \<Rightarrow> string" where
  "dec_digits n = (if n < 10 then [digit_char n] else dec_digits (n div 10) @ [digit_char n])"

declare dec_digits.simps [simp del]

definition frac_digits :: "nat \<Rightarrow> string" where
  "frac_digits n = map (\<lambda>i. digit_char (n div 10 ^ i)) [5, 4, 3, 2, 1, 0]"

text \<open>The magnitude \<open>m * 2 ^ e\<close> in millionths, rounded.\<close>

definition micros :: "nat \<Rightarrow> int \<Rightarrow> nat" where
  "micros m e =
     (if 0 \<le> e then m * 2 ^ nat e * 1000000 else div_half_even (m * 1000000) (2 ^ nat (- e)))"

definition to_string :: "double \<Rightarrow> string" where
  "to_string x =
     (case x of
        NaN \<Rightarrow> ''nan''
      | Infinity s \<Rightarrow> (if s then ''-inf'' else ''inf'')
      | Finite s m e \<Rightarrow>
          (if s then ''-'' else '''') @ dec_digits (micros m e div 1000000) @ ''.''
            @ frac_digits (micros m e mod 1000000))"

subsection \<open>\<open>std::string::find\<close> and \<open>substr\<close>\<close>

text \<open>
  Positions are \<open>size_t\<close> values, taken as 64 bits wide; \<open>npos\<close> is the largest one and
  arithmetic on positions wraps.
\<close>

definition npos :: nat where
  "npos = 2 ^ 64 - 1"

fun find_from :: "string \<Rightarrow> string \<Rightarrow> nat \<Rightarrow> nat" where
  "find_from pat [] i = (if pat = [] then i else npos)"
| "find_from pat (c # cs) i = (if prefix pat (c # cs) then i else find_from pat cs (i + 1))"

definition string_find :: "string \<Rightarrow> string \<Rightarrow> nat" where
  "string_find s pat = find_from pat s 0"

definition substr :: "string \<Rightarrow> nat \<Rightarrow> nat \<Rightarrow> exn + string" where
  "substr s pos n = (if length s < pos then Inl OutOfRange else Inr (take n (drop pos s)))"

subsection \<open>\<open>std::stod\<close>\<close>

text \<open>
  \<open>stod\<close> skips white space and converts the longest prefix that is a number, rounding
  it to the nearest double; with no such prefix it throws \<open>invalid_argument\<close>, and for a
  number too large for a double \<open>out_of_range\<close>. The model covers the decimal notation
  with an optional exponent, \<open>inf\<close> and \<open>nan\<close>. The hexadecimal notation and the range
  error for numbers too small are not modelled; \<open>to_string\<close> writes neither.
\<close>

definition is_space :: "char \<Rightarrow> bool" where
  "is_space c = (c \<in> set [CHR '' '', CHR 0x09, CHR 0x0A, CHR 0x0B, CHR 0x0C, CHR 0x0D])"

definition is_digit :: "char \<Rightarrow> bool" where
  "is_digit c = (c \<in> set ''0123456789'')"

definition digit_val :: "char \<Rightarrow> nat" where
  "digit_val c = of_char c - 48"

definition digits_val :: "string \<Rightarrow> nat" where
  "digits_val ds = foldl (\<lambda>a c. 10 * a + digit_val c) 0 ds"

definition parse_sign :: "string \<Rightarrow> bool \<times> string" where
  "parse_sign s =
     (case s of
        [] \<Rightarrow> (False, [])
      | c # cs \<Rightarrow> if c = CHR ''-'' then (True, cs) else if c = CHR ''+'' then (False, cs)
                  else (False, s))"

text \<open>A word at the start of the text, in lower or upper case letters.\<close>

fun prefix_ci :: "string \<Rightarrow> string \<Rightarrow> string \<Rightarrow> bool" where
  "prefix_ci (l # ls) (u # us) (c # cs) = ((c = l \<or> c = u) \<and> prefix_ci ls us cs)"
| "prefix_ci (l # ls) (u # us) [] = False"
| "prefix_ci ls us cs = True"

definition parse_exponent :: "string \<Rightarrow> int" where
  "parse_exponent s =
     (case s of
        [] \<Rightarrow> 0
      | c # cs \<Rightarrow>
          if c = CHR ''e'' \<or> c = CHR ''E'' then
            (let (eneg, s') = parse_sign cs; ed = takeWhile is_digit s'
             in if ed = [] then 0
                else if eneg then - int (digits_val ed) else int (digits_val ed))
          else 0)"

definition stod :: "string \<Rightarrow> exn + double" where
  "stod s =
     (let (neg, s2) = parse_sign (dropWhile is_space s)
      in if prefix_ci ''inf'' ''INF'' s2 then Inr (Infinity neg)
         else if prefix_ci ''nan'' ''NAN'' s2 then Inr NaN
         else
           let ip = takeWhile is_digit s2;
               s3 = dropWhile is_digit s2;
               (fp, s4) = (case s3 of
                             [] \<Rightarrow> ([], [])
                           | c # cs \<Rightarrow> if c = CHR ''.''
                                       then (takeWhile is_digit cs, dropWhile is_digit cs)
                                       else ([], s3))
           in if ip = [] \<and> fp = [] then Inl InvalidArgument
              else
                let k = parse_exponent s4 - int (length fp);
                    p = digits_val (ip @ fp);
                    r = (if 0 \<le> k then round_ratio neg (p * 10 ^ nat k) 1
                         else round_ratio neg p (10 ^ nat (- k)))
                in if is_finite r then Inr r else Inl OutOfRange)"

section \<open>The refrigerator\<close>

definition logAction :: "string \<Rightarrow> Refrigerator \<Rightarrow> Refrigerator" where
  "logAction action s = s\<lparr>history := history s @ [action]\<rparr>"

definition isExpired :: "string \<Rightarrow> string \<Rightarrow> bool" where
  "isExpired currentDate expDate = (currentDate \<ge> expDate)"

text \<open>Every method returns what it printed and the object as it leaves it.\<close>

definition insertProduct ::
  "string \<Rightarrow> double \<Rightarrow> string \<Rightarrow> Refrigerator \<Rightarrow> message list \<times> Refrigerator" where
  "insertProduct productName productQuantity productExpirationDate s =
     (if dle productQuantity dzero then ([ErrProductQuantity], s)
      else
        let products' =
              (case map_of (products s) productName of
                 Some p \<Rightarrow> AList.update productName (addQuantity productQuantity p) (products s)
               | None \<Rightarrow>
                   AList.update productName
                     \<lparr>name = productName, quantity = productQuantity,
                      expirationDate = productExpirationDate\<rparr> (products s))
        in ([], logAction (''Inserted '' @ to_string productQuantity @ '' of '' @ productName)
                  (s\<lparr>products := products'\<rparr>)))"

definition consumeProduct ::
  "string \<Rightarrow> double \<Rightarrow> Refrigerator \<Rightarrow> message list \<times> Refrigerator" where
  "consumeProduct productName productQuantity s =
     (if dle productQuantity dzero then ([ErrConsumedQuantity], s)
      else
        case map_of (products s) productName of
          None \<Rightarrow> ([ProductNotFound], s)
        | Some p \<Rightarrow>
            if dlt (getQuantity p) productQuantity then ([NotEnoughQuantity], s)
            else
              let p' = consumeQuantity productQuantity p;
                  s1 = s\<lparr>products := AList.update productName p' (products s)\<rparr>;
                  s2 = logAction (''Consumed '' @ to_string productQuantity @ '' of ''
                                    @ productName) s1
              in if deq (getQuantity p') dzero
                 then ([], s2\<lparr>products := AList.delete productName (products s2)\<rparr>)
                 else ([], s2))"

definition showStatus :: "Refrigerator \<Rightarrow> message list \<times> Refrigerator" where
  "showStatus s =
     (StatusHeader #
        (if products s = [] then [StatusEmpty]
         else map (\<lambda>item. StatusLine (getName (snd item)) (getQuantity (snd item))
                             (getExpirationDate (snd item))) (products s)),
      s)"

definition showHistory :: "Refrigerator \<Rightarrow> message list \<times> Refrigerator" where
  "showHistory s =
     (HistoryHeader # (if history s = [] then [HistoryEmpty] else map HistoryLine (history s)),
      s)"

text \<open>
  The loop of \<open>checkExpirations\<close> walks the map once, erasing at the iterator or stepping
  over; it returns the lines printed, the elements left and the flag \<open>expiredFound\<close>.
\<close>

fun expire_loop ::
  "string \<Rightarrow> (string \<times> Product) list \<Rightarrow> bool
     \<Rightarrow> message list \<times> (string \<times> Product) list \<times> bool" where
  "expire_loop currentDate [] expiredFound = ([], [], expiredFound)"
| "expire_loop currentDate (item # rest) expiredFound =
     (if isExpired currentDate (getExpirationDate (snd item))
      then (case expire_loop currentDate rest True of
              (out, kept, found) \<Rightarrow> (ExpiredProduct (getName (snd item)) # out, kept, found))
      else (case expire_loop currentDate rest expiredFound of
              (out, kept, found) \<Rightarrow> (out, item # kept, found)))"

definition checkExpirations :: "string \<Rightarrow> Refrigerator \<Rightarrow> message list \<times> Refrigerator" where
  "checkExpirations currentDate s =
     (case expire_loop currentDate (products s) False of
        (out, kept, expiredFound) \<Rightarrow>
          (ExpiryHeader # out @ (if \<not> expiredFound then [NoExpired] else []),
           s\<lparr>products := kept\<rparr>))"

text \<open>
  \<open>consumptionMap[productName] += consumedQuantity\<close>: a missing key starts at \<open>0.0\<close>.
\<close>

definition add_consumption ::
  "string \<Rightarrow> double \<Rightarrow> (string \<times> double) list \<Rightarrow> (string \<times> double) list" where
  "add_consumption productName consumedQuantity consumptionMap =
     AList.update productName
       (dadd (case map_of consumptionMap productName of None \<Rightarrow> dzero | Some v \<Rightarrow> v)
          consumedQuantity)
       consumptionMap"

text \<open>
  The parsing loop of \<open>generateShoppingList\<close>. An exception of \<open>substr\<close> or \<open>stod\<close> leaves
  the loop and the method.
\<close>

fun parse_history ::
  "string list \<Rightarrow> (string \<times> double) list \<Rightarrow> exn + (string \<times> double) list" where
  "parse_history [] consumptionMap = Inr consumptionMap"
| "parse_history (entry # rest) consumptionMap =
     (if string_find entry ''Consumed'' \<noteq> npos then
        (let quantityStart = (string_find entry '' '' + 1) mod 2 ^ 64;
             quantityEnd = string_find entry '' of ''
         in case substr entry quantityStart ((quantityEnd + 2 ^ 64 - quantityStart) mod 2 ^ 64) of
              Inl e \<Rightarrow> Inl e
            | Inr text \<Rightarrow>
                (case stod text of
                   Inl e \<Rightarrow> Inl e
                 | Inr consumedQuantity \<Rightarrow>
                     (case substr entry ((quantityEnd + 4) mod 2 ^ 64) npos of
                        Inl e \<Rightarrow> Inl e
                      | Inr productName \<Rightarrow>
                          parse_history rest
                            (add_consumption productName consumedQuantity consumptionMap))))
      else parse_history rest consumptionMap)"

definition generateShoppingList ::
  "Refrigerator \<Rightarrow> (exn + message list) \<times> Refrigerator" where
  "generateShoppingList s =
     (case parse_history (history s) [] of
        Inl e \<Rightarrow> (Inl e, s)
      | Inr consumptionMap \<Rightarrow>
          (Inr (ShoppingHeader #
                  (if consumptionMap = [] then [ShoppingEmpty]
                   else map (\<lambda>item. ShoppingLine (fst item) (snd item)) consumptionMap)),
           s))"

section \<open>Sequences of operations\<close>

text \<open>Inserting under one name repeatedly, each time with a quantity and a date.\<close>

definition insert_all ::
  "string \<Rightarrow> (double \<times> string) list \<Rightarrow> Refrigerator \<Rightarrow> Refrigerator" where
  "insert_all productName inserts s =
     foldl (\<lambda>s' qd. snd (insertProduct productName (fst qd) (snd qd) s')) s inserts"

text \<open>
  The states that calls of the public methods can bring the object into: it starts
  empty and each call is one step.
\<close>

inductive reachable :: "Refrigerator \<Rightarrow> bool" where
  start: "reachable empty_refrigerator"
| insert: "reachable s \<Longrightarrow> reachable (snd (insertProduct n q d s))"
| consume: "reachable s \<Longrightarrow> reachable (snd (consumeProduct n q s))"
| status: "reachable s \<Longrightarrow> reachable (snd (showStatus s))"
| history: "reachable s \<Longrightarrow> reachable (snd (showHistory s))"
| expire: "reachable s \<Longrightarrow> reachable (snd (checkExpirations d s))"
| shopping: "reachable s \<Longrightarrow> reachable (snd (generateShoppingList s))"

text \<open>Every product is stored under its own name.\<close>

definition keys_are_names :: "Refrigerator \<Rightarrow> bool" where
  "keys_are_names s = list_all (\<lambda>item. getName (snd item) = fst item) (products s)"

section \<open>Example states\<close>

definition fridge_milk :: Refrigerator where
  "fridge_milk =
     \<lparr>products =
        [(''milk'', \<lparr>name = ''milk'', quantity = double_of_nat 2,
                     expirationDate = ''2025-05-01''\<rparr>)],
      history = [''Inserted 2.000000 of milk'']\<rparr>"

definition fridge_dated :: Refrigerator where
  "fridge_dated =
     \<lparr>products =
        [(''milk'', \<lparr>name = ''milk'', quantity = double_of_nat 2,
                     expirationDate = ''2025-05-01''\<rparr>),
         (''eggs'', \<lparr>name = ''eggs'', quantity = double_of_nat 12,
                     expirationDate = ''2025-06-01''\<rparr>),
         (''jam'', \<lparr>name = ''jam'', quantity = double_of_nat 1,
                    expirationDate = ''2025-06-02''\<rparr>)],
      history = [''Inserted 2.000000 of milk'', ''Inserted 12.000000 of eggs'',
                 ''Inserted 1.000000 of jam'']\<rparr>"

text \<open>A ledger holding ten quadrillion of one product, and one holding infinitely much.\<close>

definition fridge_big :: Refrigerator where
  "fridge_big =
     \<lparr>products =
        [(''rice'', \<lparr>name = ''rice'', quantity = double_of_nat 10000000000000000,
                     expirationDate = ''2030-01-01''\<rparr>)],
      history = [''Inserted 10000000000000000.000000 of rice'']\<rparr>"

definition fridge_inf :: Refrigerator where
  "fridge_inf =
     \<lparr>products =
        [(''salt'', \<lparr>name = ''salt'', quantity = Infinity False,
                     expirationDate = ''2030-01-01''\<rparr>)],
      history = [''Inserted inf of salt'']\<rparr>"

text \<open>The double nearest to 0.0000004.\<close>

definition tiny :: double where
  "tiny = round_ratio False 4 10000000"

section \<open>Facts about doubles\<close>

lemmas double_eval =
  round_ratio_def bit_length.simps div_half_even_def at_least_pow2_def Let_def
  double_of_nat_def dsub_def dlt_def dle_def deq_def common_exponent_def dzero_def

lemma double_of_nat_values:
  "double_of_nat 0 = Finite False 0 (- 1074)"
  "double_of_nat 1 = Finite False 4503599627370496 (- 52)"
  "double_of_nat (Suc 0) = Finite False 4503599627370496 (- 52)"
  "double_of_nat 2 = Finite False 4503599627370496 (- 51)"
  "double_of_nat 3 = Finite False 6755399441055744 (- 51)"
  "double_of_nat 4 = Finite False 4503599627370496 (- 50)"
  "double_of_nat 5 = Finite False 5629499534213120 (- 50)"
  "double_of_nat 12 = Finite False 6755399441055744 (- 49)"
  "double_of_nat 10000000000000000 = Finite False 5000000000000000 1"
  by (simp_all add: double_eval)

lemma tiny_value: "tiny = Finite False 7555786372591432 (- 74)"
  by (simp add: tiny_def double_eval)

lemma positive_not_le_zero: "dlt dzero q \<Longrightarrow> \<not> dle q dzero"
  by (auto simp: dlt_def dle_def common_exponent_def min.commute)

lemma le_not_lt: "dle r q \<Longrightarrow> \<not> dlt q r"
  by (auto simp: dlt_def dle_def common_exponent_def min.commute)

lemma number_not_le_zero: "\<not> is_nan q \<Longrightarrow> \<not> dle q dzero \<longleftrightarrow> dlt dzero q"
  by (auto simp: dlt_def dle_def common_exponent_def min.commute dzero_def)

lemma number_not_lt: "\<not> is_nan q \<Longrightarrow> \<not> is_nan r \<Longrightarrow> \<not> dlt q r \<longleftrightarrow> dle r q"
  by (auto simp: dlt_def dle_def common_exponent_def min.commute)

lemma dsub_equal_finite:
  assumes "is_finite a" and "deq b a"
  shows "deq (dsub a b) dzero"
proof -
  from assms obtain s m e where a: "a = Finite s m e"
    by (cases a) auto
  from assms(2) a obtain t k f where b: "b = Finite t k f"
    by (cases b) (auto simp: deq_def split: if_splits)
  from assms(2) have "scaled (min e f) a = scaled (min e f) b"
    by (simp add: deq_def common_exponent_def a b min.commute)
  then have "scaled (min e f) (Finite s m e) + scaled (min e f) (Finite (\<not> t) k f) = 0"
    by (simp add: a b)
  then have "dsub a b = Finite (s \<and> \<not> t) 0 (- 1074)"
    unfolding dsub_def a b dneg.simps dadd.simps Let_def by (simp del: scaled.simps)
  then show ?thesis
    by (simp add: deq_def dzero_def common_exponent_def)
qed

lemmas compare_eval = dlt_def dle_def deq_def common_exponent_def dzero_def

lemma micros_values:
  "micros 4503599627370496 (- 52) = 1000000"
  "micros 4503599627370496 (- 51) = 2000000"
  "micros 6755399441055744 (- 51) = 3000000"
  "micros 4503599627370496 (- 50) = 4000000"
  "micros 5629499534213120 (- 50) = 5000000"
  "micros 5000000000000000 1 = 10000000000000000000000"
  "micros 7555786372591432 (- 74) = 0"
  by (simp_all add: micros_def div_half_even_def Let_def)

lemmas to_string_eval =
  to_string_def micros_values dec_digits.simps frac_digits_def digit_char_def

lemma to_string_values:
  "to_string (double_of_nat 1) = ''1.000000''"
  "to_string (double_of_nat (Suc 0)) = ''1.000000''"
  "to_string (double_of_nat 2) = ''2.000000''"
  "to_string (double_of_nat 3) = ''3.000000''"
  "to_string (double_of_nat 4) = ''4.000000''"
  "to_string (double_of_nat 5) = ''5.000000''"
  "to_string (double_of_nat 10000000000000000) = ''10000000000000000.000000''"
  "to_string tiny = ''0.000000''"
  "to_string (Infinity False) = ''inf''"
  "to_string NaN = ''nan''"
  by (simp_all add: double_of_nat_values tiny_value to_string_eval)

section \<open>Failing operations\<close>

text \<open>
  C1. Every failing operation leaves the ledger and the action log as they were: an
  insert with a quantity that is not positive, a consume with a quantity that is not
  positive, a consume of a name that is not stored, and a consume of more than is stored.
  In each case the whole object, ledger and log, is the one before the call, so no
  record is appended.
\<close>

theorem failing_operation_is_noop:
  "(dle q dzero \<longrightarrow> snd (insertProduct n q d s) = s) \<and>
   (dle q dzero \<longrightarrow> snd (consumeProduct n q s) = s) \<and>
   (map_of (products s) n = None \<longrightarrow> snd (consumeProduct n q s) = s) \<and>
   (\<forall>p. map_of (products s) n = Some p \<and> dlt (getQuantity p) q
      \<longrightarrow> snd (consumeProduct n q s) = s)"
  by (simp add: insertProduct_def consumeProduct_def)

theorem failing_operation_is_noop_witness:
  "snd (insertProduct ''milk'' dzero ''2025-05-10'' fridge_milk) = fridge_milk \<and>
   snd (consumeProduct ''milk'' (dneg (double_of_nat 1)) fridge_milk) = fridge_milk \<and>
   snd (consumeProduct ''bread'' (double_of_nat 1) fridge_milk) = fridge_milk \<and>
   snd (consumeProduct ''milk'' (double_of_nat 3) fridge_milk) = fridge_milk"
proof -
  let ?p = "\<lparr>name = ''milk'', quantity = double_of_nat 2, expirationDate = ''2025-05-01''\<rparr>"
  have z: "dle dzero dzero" and m1: "dle (dneg (double_of_nat 1)) dzero"
    by (simp_all add: double_of_nat_values compare_eval)
  have a: "map_of (products fridge_milk) ''bread'' = None"
    by (simp add: fridge_milk_def)
  have b: "map_of (products fridge_milk) ''milk'' = Some ?p"
    by (simp add: fridge_milk_def)
  have c: "dlt (getQuantity ?p) (double_of_nat 3)"
    by (simp add: getQuantity_def double_of_nat_values compare_eval)
  from failing_operation_is_noop [of dzero "''milk''" "''2025-05-10''" fridge_milk] z
  have 1: "snd (insertProduct ''milk'' dzero ''2025-05-10'' fridge_milk) = fridge_milk"
    by blast
  from failing_operation_is_noop
    [of "dneg (double_of_nat 1)" "''milk''" "''2025-05-10''" fridge_milk] m1
  have 2: "snd (consumeProduct ''milk'' (dneg (double_of_nat 1)) fridge_milk) = fridge_milk"
    by blast
  from failing_operation_is_noop [of "double_of_nat 1" "''bread''" "''2025-05-10''" fridge_milk] a
  have 3: "snd (consumeProduct ''bread'' (double_of_nat 1) fridge_milk) = fridge_milk"
    by blast
  from failing_operation_is_noop [of "double_of_nat 3" "''milk''" "''2025-05-10''" fridge_milk] b c
  have 4: "snd (consumeProduct ''milk'' (double_of_nat 3) fridge_milk) = fridge_milk"
    by blast
  from 1 2 3 4 show ?thesis by simp
qed

section \<open>Outcomes of insert and consume\<close>

text \<open>
  C6. The claim: a consume prints the validation error exactly when the quantity is
  \<open><= 0\<close>, the not-found message exactly when the quantity is \<open>> 0\<close> and the name is not
  stored, the not-enough message exactly when the quantity is \<open>> 0\<close>, the name is stored
  and the stored quantity is smaller than the requested one, and succeeds in the
  remaining cases; an insert fails exactly when the quantity is \<open><= 0\<close>. For the quantity
  NaN both \<open><= 0\<close> and \<open>> 0\<close> are false: consuming NaN of a name that is not stored prints
  the not-found message although the quantity is not \<open>> 0\<close>.
\<close>

theorem not_found_for_nan:
  "fst (consumeProduct ''bread'' NaN empty_refrigerator) = [ProductNotFound] \<and>
   \<not> dlt dzero NaN \<and> \<not> dle NaN dzero \<and>
   map_of (products empty_refrigerator) ''bread'' = None"
  by (simp add: consumeProduct_def empty_refrigerator_def dlt_def dle_def)

text \<open>
  C6, amended. For every ledger state, every name and every quantity that is not NaN, the
  outcomes are as the claim says: the validation error exactly when the quantity is
  \<open><= 0\<close>; not-found exactly when it is \<open>> 0\<close> and the name is not stored; not-enough exactly
  when it is \<open>> 0\<close>, the name is stored and the stored quantity is \<open><\<close> the requested one;
  success (nothing printed) exactly in the remaining case, the quantity \<open>> 0\<close>, the name
  stored and the stored quantity not \<open><\<close> the requested one. An insert fails exactly when
  the quantity is \<open><= 0\<close> and succeeds exactly when it is \<open>> 0\<close>.
\<close>

theorem outcome_of_consume_and_insert:
  assumes "\<not> is_nan q"
  shows
  "(fst (consumeProduct n q s) = [ErrConsumedQuantity] \<longleftrightarrow> dle q dzero) \<and>
   (fst (consumeProduct n q s) = [ProductNotFound]
      \<longleftrightarrow> dlt dzero q \<and> map_of (products s) n = None) \<and>
   (fst (consumeProduct n q s) = [NotEnoughQuantity]
      \<longleftrightarrow> dlt dzero q \<and> (\<exists>p. map_of (products s) n = Some p \<and> dlt (getQuantity p) q)) \<and>
   (fst (consumeProduct n q s) = []
      \<longleftrightarrow> dlt dzero q \<and> (\<exists>p. map_of (products s) n = Some p \<and> \<not> dlt (getQuantity p) q)) \<and>
   (fst (insertProduct n q d s) = [ErrProductQuantity] \<longleftrightarrow> dle q dzero) \<and>
   (fst (insertProduct n q d s) = [] \<longleftrightarrow> dlt dzero q)"
proof -
  note pos = number_not_le_zero [OF assms]
  show ?thesis
  proof (cases "dle q dzero")
    case True
    with pos have "\<not> dlt dzero q" by simp
    with True show ?thesis
      by (simp add: insertProduct_def consumeProduct_def)
  next
    case False
    with pos have "dlt dzero q" by simp
    with False show ?thesis
      by (auto simp: insertProduct_def consumeProduct_def Let_def split: option.splits)
  qed
qed

theorem outcome_of_consume_and_insert_witness:
  "\<not> is_nan dzero \<and> \<not> is_nan (double_of_nat 1) \<and>
   fst (consumeProduct ''milk'' dzero fridge_milk) = [ErrConsumedQuantity] \<and>
   fst (consumeProduct ''bread'' (double_of_nat 1) fridge_milk) = [ProductNotFound] \<and>
   fst (consumeProduct ''milk'' (double_of_nat 3) fridge_milk) = [NotEnoughQuantity] \<and>
   fst (consumeProduct ''milk'' (double_of_nat 2) fridge_milk) = [] \<and>
   fst (insertProduct ''milk'' dzero ''2025-05-10'' fridge_milk) = [ErrProductQuantity] \<and>
   fst (insertProduct ''milk'' (double_of_nat 1) ''2025-05-10'' fridge_milk) = []"
proof -
  let ?p = "\<lparr>name = ''milk'', quantity = double_of_nat 2, expirationDate = ''2025-05-01''\<rparr>"
  have n: "\<not> is_nan dzero" "\<not> is_nan (double_of_nat 1)" "\<not> is_nan (double_of_nat 2)"
    "\<not> is_nan (double_of_nat 3)"
    by (simp_all add: double_of_nat_values dzero_def)
  have m: "map_of (products fridge_milk) ''milk'' = Some ?p"
    and b: "map_of (products fridge_milk) ''bread'' = None"
    by (simp_all add: fridge_milk_def)
  have c: "dle dzero dzero" "dlt dzero (double_of_nat 1)" "dlt dzero (double_of_nat 2)"
    "dlt dzero (double_of_nat 3)" "dlt (getQuantity ?p) (double_of_nat 3)"
    "\<not> dlt (getQuantity ?p) (double_of_nat 2)"
    by (simp_all add: getQuantity_def double_of_nat_values compare_eval)
  from outcome_of_consume_and_insert [OF n(1), of "''milk''" fridge_milk "''2025-05-10''"] c
  have 1: "fst (consumeProduct ''milk'' dzero fridge_milk) = [ErrConsumedQuantity]"
    and 5: "fst (insertProduct ''milk'' dzero ''2025-05-10'' fridge_milk) = [ErrProductQuantity]"
    by blast+
  from outcome_of_consume_and_insert [OF n(2), of "''bread''" fridge_milk "''2025-05-10''"] b c
  have 2: "fst (consumeProduct ''bread'' (double_of_nat 1) fridge_milk) = [ProductNotFound]"
    by blast
  from outcome_of_consume_and_insert [OF n(4), of "''milk''" fridge_milk "''2025-05-10''"] m c
  have 3: "fst (consumeProduct ''milk'' (double_of_nat 3) fridge_milk) = [NotEnoughQuantity]"
    by blast
  from outcome_of_consume_and_insert [OF n(3), of "''milk''" fridge_milk "''2025-05-10''"] m c
  have 4: "fst (consumeProduct ''milk'' (double_of_nat 2) fridge_milk) = []"
    by blast
  from outcome_of_consume_and_insert [OF n(2), of "''milk''" fridge_milk "''2025-05-10''"] c
  have 6: "fst (insertProduct ''milk'' (double_of_nat 1) ''2025-05-10'' fridge_milk) = []"
    by blast
  from n 1 2 3 4 5 6 show ?thesis by simp
qed

section \<open>The expiration sweep\<close>

lemma expire_loop_kept:
  "fst (snd (expire_loop cur al f)) = filter (\<lambda>item. \<not> getExpirationDate (snd item) \<le> cur) al"
  by (induction al arbitrary: f) (simp_all add: isExpired_def case_prod_beta)

lemma products_checkExpirations:
  "products (snd (checkExpirations cur s))
     = filter (\<lambda>item. \<not> getExpirationDate (snd item) \<le> cur) (products s)"
  by (simp add: checkExpirations_def case_prod_beta expire_loop_kept)

lemma history_checkExpirations: "history (snd (checkExpirations cur s)) = history s"
  by (simp add: checkExpirations_def case_prod_beta)

lemma map_of_filter_values:
  "distinct (map fst al) \<Longrightarrow>
   map_of (filter (\<lambda>item. P (snd item)) al) k
     = (case map_of al k of None \<Rightarrow> None | Some v \<Rightarrow> if P v then Some v else None)"
proof (induction al)
  case Nil
  then show ?case by simp
next
  case (Cons a al)
  obtain k' v' where a: "a = (k', v')" by (cases a)
  from Cons.prems a have nk: "map_of al k' = None"
    by (simp add: map_of_eq_None_iff)
  have nk': "map_of (filter (\<lambda>item. P (snd item)) al) k' = None"
    using Cons.prems a by (auto simp: map_of_eq_None_iff)
  show ?case
    using Cons a nk nk' by (auto split: option.splits)
qed

text \<open>
  C4. For every ledger and every current date, the sweep leaves in the ledger exactly
  the items whose stored expiration date is later than the current date in the order of
  strings, each one unchanged and in its place; every item whose date is smaller than or
  equal to the current date is gone. With one item per name (as an \<open>unordered_map\<close> has
  it), looking a name up afterwards finds its item if and only if the item was there with
  a later date.
\<close>

theorem sweep_removes_exactly_expired:
  "products (snd (checkExpirations currentDate s))
     = filter (\<lambda>item. currentDate < getExpirationDate (snd item)) (products s) \<and>
   (distinct (map fst (products s)) \<longrightarrow>
      (\<forall>k. map_of (products (snd (checkExpirations currentDate s))) k
            = (case map_of (products s) k of
                 None \<Rightarrow> None
               | Some p \<Rightarrow> if getExpirationDate p \<le> currentDate then None else Some p)))"
proof -
  have eq: "(\<lambda>item::string \<times> Product. \<not> getExpirationDate (snd item) \<le> currentDate)
            = (\<lambda>item. currentDate < getExpirationDate (snd item))"
    by (simp add: not_le)
  have 1: "products (snd (checkExpirations currentDate s))
     = filter (\<lambda>item. \<not> getExpirationDate (snd item) \<le> currentDate) (products s)"
    by (rule products_checkExpirations)
  have 2: "map_of (products (snd (checkExpirations currentDate s))) k
            = (case map_of (products s) k of
                 None \<Rightarrow> None
               | Some p \<Rightarrow> if getExpirationDate p \<le> currentDate then None else Some p)"
    if "distinct (map fst (products s))" for k
    using map_of_filter_values [OF that, of "\<lambda>p. \<not> getExpirationDate p \<le> currentDate" k]
    by (simp add: 1 split: option.splits)
  from 1 2 eq show ?thesis by simp
qed

theorem sweep_removes_exactly_expired_witness:
  "distinct (map fst (products fridge_dated)) \<and>
   products (snd (checkExpirations ''2025-06-01'' fridge_dated))
     = [(''jam'', \<lparr>name = ''jam'', quantity = double_of_nat 1, expirationDate = ''2025-06-02''\<rparr>)] \<and>
   map_of (products (snd (checkExpirations ''2025-06-01'' fridge_dated))) ''milk'' = None \<and>
   map_of (products (snd (checkExpirations ''2025-06-01'' fridge_dated))) ''eggs'' = None \<and>
   map_of (products (snd (checkExpirations ''2025-06-01'' fridge_dated))) ''jam''
     = Some \<lparr>name = ''jam'', quantity = double_of_nat 1, expirationDate = ''2025-06-02''\<rparr>"
proof -
  have d: "distinct (map fst (products fridge_dated))"
    by (simp add: fridge_dated_def)
  from sweep_removes_exactly_expired [of "''2025-06-01''" fridge_dated] d
  show ?thesis
    by (simp add: fridge_dated_def getExpirationDate_def)
qed

section \<open>The action log\<close>

lemma history_insertProduct:
  "history (snd (insertProduct n q d s))
     = (if dle q dzero then history s else history s @ [''Inserted '' @ to_string q @ '' of '' @ n])"
  by (simp add: insertProduct_def logAction_def Let_def)

lemma history_consumeProduct:
  "history (snd (consumeProduct n q s))
     = (if fst (consumeProduct n q s) = []
        then history s @ [''Consumed '' @ to_string q @ '' of '' @ n] else history s)"
  by (simp add: consumeProduct_def logAction_def Let_def split: option.splits)

lemma snd_showStatus: "snd (showStatus s) = s"
  by (simp add: showStatus_def)

lemma snd_showHistory: "snd (showHistory s) = s"
  by (simp add: showHistory_def)

lemma snd_generateShoppingList: "snd (generateShoppingList s) = s"
  by (simp add: generateShoppingList_def split: sum.splits)

text \<open>
  C7. The action log is append-only. For each of the six operations the log before the
  call is a prefix of the log after it. An insert or consume that succeeds (prints no
  error) appends exactly one record, \<open>Inserted q of n\<close> or \<open>Consumed q of n\<close>; an insert
  or consume that fails, the sweep and the three queries leave the log as it was.
\<close>

theorem log_append_only:
  "prefix (history s) (history (snd (insertProduct n q d s))) \<and>
   prefix (history s) (history (snd (consumeProduct n q s))) \<and>
   prefix (history s) (history (snd (checkExpirations cur s))) \<and>
   prefix (history s) (history (snd (showStatus s))) \<and>
   prefix (history s) (history (snd (showHistory s))) \<and>
   prefix (history s) (history (snd (generateShoppingList s))) \<and>
   (fst (insertProduct n q d s) = [] \<longrightarrow>
      history (snd (insertProduct n q d s))
        = history s @ [''Inserted '' @ to_string q @ '' of '' @ n]) \<and>
   (fst (insertProduct n q d s) \<noteq> [] \<longrightarrow> history (snd (insertProduct n q d s)) = history s) \<and>
   (fst (consumeProduct n q s) = [] \<longrightarrow>
      history (snd (consumeProduct n q s))
        = history s @ [''Consumed '' @ to_string q @ '' of '' @ n]) \<and>
   (fst (consumeProduct n q s) \<noteq> [] \<longrightarrow> history (snd (consumeProduct n q s)) = history s) \<and>
   history (snd (checkExpirations cur s)) = history s \<and>
   history (snd (showStatus s)) = history s \<and>
   history (snd (showHistory s)) = history s \<and>
   history (snd (generateShoppingList s)) = history s"
proof -
  have i: "fst (insertProduct n q d s) = [] \<longleftrightarrow> \<not> dle q dzero"
    by (simp add: insertProduct_def Let_def)
  show ?thesis
    by (simp add: history_insertProduct history_consumeProduct history_checkExpirations
        snd_showStatus snd_showHistory snd_generateShoppingList i)
qed

theorem log_append_only_witness:
  "fst (insertProduct ''milk'' (double_of_nat 3) ''2025-05-10'' fridge_milk) = [] \<and>
   history (snd (insertProduct ''milk'' (double_of_nat 3) ''2025-05-10'' fridge_milk))
     = [''Inserted 2.000000 of milk'', ''Inserted 3.000000 of milk''] \<and>
   fst (insertProduct ''milk'' dzero ''2025-05-10'' fridge_milk) \<noteq> [] \<and>
   history (snd (insertProduct ''milk'' dzero ''2025-05-10'' fridge_milk))
     = [''Inserted 2.000000 of milk''] \<and>
   fst (consumeProduct ''milk'' (double_of_nat 3) fridge_milk) \<noteq> [] \<and>
   history (snd (consumeProduct ''milk'' (double_of_nat 3) fridge_milk))
     = [''Inserted 2.000000 of milk''] \<and>
   fst (consumeProduct ''milk'' (double_of_nat 2) fridge_milk) = [] \<and>
   history (snd (consumeProduct ''milk'' (double_of_nat 2) fridge_milk))
     = [''Inserted 2.000000 of milk'', ''Consumed 2.000000 of milk'']"
proof -
  have h: "history fridge_milk = [''Inserted 2.000000 of milk'']"
    and m: "map_of (products fridge_milk) ''milk''
              = Some \<lparr>name = ''milk'', quantity = double_of_nat 2,
                      expirationDate = ''2025-05-01''\<rparr>"
    by (simp_all add: fridge_milk_def)
  have c: "\<not> dle (double_of_nat 3) dzero" "dle dzero dzero" "\<not> dle (double_of_nat 2) dzero"
    "dlt (double_of_nat 2) (double_of_nat 3)" "\<not> dlt (double_of_nat 2) (double_of_nat 2)"
    by (simp_all add: double_of_nat_values compare_eval)
  have a: "fst (insertProduct ''milk'' (double_of_nat 3) ''2025-05-10'' fridge_milk) = []"
    using c by (simp add: insertProduct_def Let_def)
  have b: "fst (insertProduct ''milk'' dzero ''2025-05-10'' fridge_milk) \<noteq> []"
    using c by (simp add: insertProduct_def)
  have c3: "fst (consumeProduct ''milk'' (double_of_nat 3) fridge_milk) \<noteq> []"
    using c m by (simp add: consumeProduct_def getQuantity_def)
  have e: "fst (consumeProduct ''milk'' (double_of_nat 2) fridge_milk) = []"
    using c m by (simp add: consumeProduct_def getQuantity_def Let_def)
  from log_append_only [of fridge_milk "''milk''" "double_of_nat 3" "''2025-05-10''"] a
  have 1: "history (snd (insertProduct ''milk'' (double_of_nat 3) ''2025-05-10'' fridge_milk))
     = [''Inserted 2.000000 of milk'', ''Inserted 3.000000 of milk'']"
    by (simp add: h to_string_values)
  from log_append_only [of fridge_milk "''milk''" dzero "''2025-05-10''"] b
  have 2: "history (snd (insertProduct ''milk'' dzero ''2025-05-10'' fridge_milk))
     = [''Inserted 2.000000 of milk'']"
    by (simp add: h)
  from log_append_only [of fridge_milk "''milk''" "double_of_nat 3" "''2025-05-10''"] c3
  have 3: "history (snd (consumeProduct ''milk'' (double_of_nat 3) fridge_milk))
     = [''Inserted 2.000000 of milk'']"
    by (simp add: h)
  from log_append_only [of fridge_milk "''milk''" "double_of_nat 2" "''2025-05-10''"] e
  have 4: "history (snd (consumeProduct ''milk'' (double_of_nat 2) fridge_milk))
     = [''Inserted 2.000000 of milk'', ''Consumed 2.000000 of milk'']"
    by (simp add: h to_string_values)
  from a b c3 e 1 2 3 4 show ?thesis by blast
qed

text \<open>
  C9. The three queries are pure: whatever the state, \<open>showStatus\<close>, \<open>showHistory\<close> and
  \<open>generateShoppingList\<close> leave the object, ledger and log, exactly as it was (the last
  one also when its parsing throws).
\<close>

theorem queries_are_pure:
  "snd (showStatus s) = s \<and> snd (showHistory s) = s \<and> snd (generateShoppingList s) = s"
  by (simp add: snd_showStatus snd_showHistory snd_generateShoppingList)

text \<open>
  C10. The sweep never appends to the action log: for every state and every current
  date the log after \<open>checkExpirations\<close> is the log before it. So what \<open>showHistory\<close>
  prints and what \<open>generateShoppingList\<close> computes are the same after the sweep as before:
  the removal of expired items shows in neither.
\<close>

theorem sweep_keeps_log:
  "history (snd (checkExpirations currentDate s)) = history s \<and>
   fst (showHistory (snd (checkExpirations currentDate s))) = fst (showHistory s) \<and>
   fst (generateShoppingList (snd (checkExpirations currentDate s)))
     = fst (generateShoppingList s)"
  by (simp add: history_checkExpirations showHistory_def generateShoppingList_def
      split: sum.splits)

section \<open>Repeated inserts\<close>

lemma dadd_values:
  "dadd (double_of_nat 2) (double_of_nat 3) = double_of_nat 5"
  "dadd (double_of_nat 10000000000000000) (double_of_nat 1) = double_of_nat 10000000000000000"
  "dadd (double_of_nat 10000000000000000) (double_of_nat (Suc 0))
     = double_of_nat 10000000000000000"
  by (simp_all add: double_of_nat_values round_ratio_def bit_length.simps div_half_even_def
      at_least_pow2_def Let_def)

lemma dsub_values:
  "dsub (double_of_nat 2) (double_of_nat 1) = double_of_nat 1"
  "dsub (double_of_nat 2) (double_of_nat (Suc 0)) = double_of_nat 1"
  "dsub (double_of_nat 10000000000000000) (double_of_nat 1) = double_of_nat 10000000000000000"
  "dsub (double_of_nat 10000000000000000) (double_of_nat (Suc 0))
     = double_of_nat 10000000000000000"
  "dsub (Infinity False) (Infinity False) = NaN"
  by (simp_all add: dsub_def double_of_nat_values round_ratio_def bit_length.simps
      div_half_even_def at_least_pow2_def Let_def)

lemma products_insertProduct:
  "\<not> dle q dzero \<Longrightarrow>
   map_of (products (snd (insertProduct n q d s)))
     = (map_of (products s))(n \<mapsto>
          (case map_of (products s) n of
             Some p \<Rightarrow> addQuantity q p
           | None \<Rightarrow> \<lparr>name = n, quantity = q, expirationDate = d\<rparr>))"
  by (simp add: insertProduct_def logAction_def Let_def update_conv' split: option.splits)

lemma insert_all_present:
  "map_of (products s) n = Some p \<Longrightarrow> \<forall>qd \<in> set inserts. dlt dzero (fst qd) \<Longrightarrow>
   map_of (products (insert_all n inserts s)) n
     = Some (p\<lparr>quantity := foldl dadd (quantity p) (map fst inserts)\<rparr>)"
proof (induction inserts arbitrary: s p)
  case Nil
  then show ?case by (simp add: insert_all_def)
next
  case (Cons qd inserts)
  let ?s1 = "snd (insertProduct n (fst qd) (snd qd) s)"
  from Cons.prems have pos: "\<not> dle (fst qd) dzero"
    by (simp add: positive_not_le_zero)
  have 1: "map_of (products ?s1) n = Some (addQuantity (fst qd) p)"
    using Cons.prems(1) by (simp add: products_insertProduct [OF pos])
  have "map_of (products (insert_all n inserts ?s1)) n
          = Some ((addQuantity (fst qd) p)\<lparr>quantity :=
               foldl dadd (quantity (addQuantity (fst qd) p)) (map fst inserts)\<rparr>)"
    using Cons.IH [OF 1] Cons.prems(2) by simp
  then show ?case
    by (simp add: insert_all_def addQuantity_def)
qed

text \<open>
  C2. Starting from a ledger that does not hold the name, after inserts of that name
  with quantities \<open>q1, ..., qn\<close>, all \<open>> 0\<close>, the ledger holds the name with the quantity
  \<open>q1 + ... + qn\<close>, the sum being taken as the program takes it, in double arithmetic
  from left to right, and with the expiration date given in the first insert.
\<close>

theorem repeated_insert_sums_and_keeps_first_date:
  assumes "map_of (products s) n = None"
    and "\<forall>qd \<in> set ((q1, d1) # rest). dlt dzero (fst qd)"
  shows "map_of (products (insert_all n ((q1, d1) # rest) s)) n
           = Some \<lparr>name = n, quantity = foldl dadd q1 (map fst rest), expirationDate = d1\<rparr>"
proof -
  let ?s1 = "snd (insertProduct n q1 d1 s)"
  from assms(2) have pos: "\<not> dle q1 dzero"
    by (simp add: positive_not_le_zero)
  have 1: "map_of (products ?s1) n = Some \<lparr>name = n, quantity = q1, expirationDate = d1\<rparr>"
    using assms(1) by (simp add: products_insertProduct [OF pos])
  from assms(2) have rest: "\<forall>qd \<in> set rest. dlt dzero (fst qd)" by simp
  have "insert_all n ((q1, d1) # rest) s = insert_all n rest ?s1"
    by (simp add: insert_all_def)
  with insert_all_present [OF 1 rest] show ?thesis by simp
qed

theorem repeated_insert_sums_and_keeps_first_date_witness:
  "map_of (products empty_refrigerator) ''milk'' = None \<and>
   dlt dzero (double_of_nat 2) \<and> dlt dzero (double_of_nat 3) \<and>
   map_of (products (insert_all ''milk''
                       [(double_of_nat 2, ''2025-05-01''), (double_of_nat 3, ''2025-05-10'')]
                       empty_refrigerator)) ''milk''
     = Some \<lparr>name = ''milk'', quantity = double_of_nat 5, expirationDate = ''2025-05-01''\<rparr> \<and>
   dlt dzero (double_of_nat 10000000000000000) \<and> dlt dzero (double_of_nat 1) \<and>
   map_of (products (insert_all ''milk''
                       [(double_of_nat 10000000000000000, ''2025-05-01''),
                        (double_of_nat 1, ''2025-05-10'')]
                       empty_refrigerator)) ''milk''
     = Some \<lparr>name = ''milk'', quantity = double_of_nat 10000000000000000,
             expirationDate = ''2025-05-01''\<rparr>"
proof -
  have a: "map_of (products empty_refrigerator) ''milk'' = None"
    by (simp add: empty_refrigerator_def)
  have p: "dlt dzero (double_of_nat 2)" "dlt dzero (double_of_nat 3)"
    "dlt dzero (double_of_nat 10000000000000000)" "dlt dzero (double_of_nat 1)"
    by (simp_all add: double_of_nat_values compare_eval)
  have b: "\<forall>qd \<in> set ((double_of_nat 2, ''2025-05-01'') # [(double_of_nat 3, ''2025-05-10'')]).
             dlt dzero (fst qd)"
    and c: "\<forall>qd \<in> set ((double_of_nat 10000000000000000, ''2025-05-01'')
                        # [(double_of_nat 1, ''2025-05-10'')]). dlt dzero (fst qd)"
    using p by simp_all
  from repeated_insert_sums_and_keeps_first_date [OF a b]
  have 1: "map_of (products (insert_all ''milk''
                       [(double_of_nat 2, ''2025-05-01''), (double_of_nat 3, ''2025-05-10'')]
                       empty_refrigerator)) ''milk''
     = Some \<lparr>name = ''milk'', quantity = double_of_nat 5, expirationDate = ''2025-05-01''\<rparr>"
    by (simp add: dadd_values)
  from repeated_insert_sums_and_keeps_first_date [OF a c]
  have 2: "map_of (products (insert_all ''milk''
                       [(double_of_nat 10000000000000000, ''2025-05-01''),
                        (double_of_nat 1, ''2025-05-10'')]
                       empty_refrigerator)) ''milk''
     = Some \<lparr>name = ''milk'', quantity = double_of_nat 10000000000000000,
             expirationDate = ''2025-05-01''\<rparr>"
    by (simp add: dadd_values)
  from a p 1 2 show ?thesis by simp
qed

section \<open>Successful consumption\<close>

lemma set_update_cases:
  "x \<in> set (AList.update k v al) \<Longrightarrow> x = (k, v) \<or> x \<in> set al"
  by (induction al) (auto split: if_splits)

lemma set_delete_iff:
  "x \<in> set (AList.delete k al) \<longleftrightarrow> x \<in> set al \<and> fst x \<noteq> k"
  by (auto simp: AList.delete_eq)

lemma products_consumeProduct:
  "map_of (products s) n = Some p \<Longrightarrow> \<not> dle r dzero \<Longrightarrow> \<not> dlt (getQuantity p) r \<Longrightarrow>
   products (snd (consumeProduct n r s))
     = (if deq (dsub (getQuantity p) r) dzero
        then AList.delete n (AList.update n (consumeQuantity r p) (products s))
        else AList.update n (consumeQuantity r p) (products s))"
  by (simp add: consumeProduct_def logAction_def Let_def consumeQuantity_def getQuantity_def)

text \<open>A single insert of an infinite quantity gives the ledger \<open>fridge_inf\<close>.\<close>

lemma fridge_inf_reachable:
  "fridge_inf = snd (insertProduct ''salt'' (Infinity False) ''2030-01-01'' empty_refrigerator)"
  "reachable fridge_inf"
proof -
  have "\<not> dle (Infinity False) dzero"
    by (simp add: compare_eval)
  then show 1: "fridge_inf
      = snd (insertProduct ''salt'' (Infinity False) ''2030-01-01'' empty_refrigerator)"
    by (simp add: fridge_inf_def insertProduct_def logAction_def empty_refrigerator_def
        to_string_values)
  show "reachable fridge_inf"
    unfolding 1 by (intro reachable.insert reachable.start)
qed

text \<open>
  C3. The claim: when the ledger holds the name with the stored quantity \<open>q\<close> and
  \<open>0 < r <= q\<close>, the consume subtracts \<open>r\<close>, appends one Consume record, and removes the
  item exactly when the result is exactly zero; in particular, consuming exactly the full
  current quantity removes the item. When the stored quantity is infinite, consuming
  exactly that quantity leaves the difference of two infinities, NaN, which is not zero:
  the item stays.
\<close>

theorem consuming_all_of_infinity_keeps_item:
  "map_of (products fridge_inf) ''salt''
     = Some \<lparr>name = ''salt'', quantity = Infinity False, expirationDate = ''2030-01-01''\<rparr> \<and>
   dlt dzero (Infinity False) \<and> dle (Infinity False) (Infinity False) \<and>
   fst (consumeProduct ''salt'' (Infinity False) fridge_inf) = [] \<and>
   map_of (products (snd (consumeProduct ''salt'' (Infinity False) fridge_inf))) ''salt''
     = Some \<lparr>name = ''salt'', quantity = NaN, expirationDate = ''2030-01-01''\<rparr>"
  by (simp add: fridge_inf_def consumeProduct_def getQuantity_def consumeQuantity_def
      logAction_def dsub_values compare_eval)

text \<open>
  C3, amended. When the ledger holds the name with a stored quantity \<open>q\<close> and the
  requested quantity \<open>r\<close> has \<open>0 < r <= q\<close>, the consume succeeds, appends the one record
  \<open>Consumed r of n\<close> to the log, and leaves every other name as it was. The name itself
  is gone from the ledger exactly when the difference \<open>q - r\<close>, taken in double
  arithmetic, is \<open>== 0\<close>; otherwise it keeps its item with that difference as quantity.
  In particular, after consuming exactly the full stored quantity, when that is finite,
  no entry is left under the name, and (products being stored under their own names) the
  status listing has no line for it.
\<close>

theorem consume_success:
  assumes "map_of (products s) n = Some p" and "dlt dzero r" and "dle r (getQuantity p)"
  shows "fst (consumeProduct n r s) = [] \<and>
     history (snd (consumeProduct n r s))
       = history s @ [''Consumed '' @ to_string r @ '' of '' @ n] \<and>
     map_of (products (snd (consumeProduct n r s))) n
       = (if deq (dsub (getQuantity p) r) dzero then None
          else Some (p\<lparr>quantity := dsub (getQuantity p) r\<rparr>)) \<and>
     (\<forall>k. k \<noteq> n \<longrightarrow>
        map_of (products (snd (consumeProduct n r s))) k = map_of (products s) k) \<and>
     (is_finite (getQuantity p) \<and> deq r (getQuantity p) \<longrightarrow>
        n \<notin> fst ` set (products (snd (consumeProduct n r s))) \<and>
        (keys_are_names s \<longrightarrow>
           (\<forall>q d. StatusLine n q d \<notin> set (fst (showStatus (snd (consumeProduct n r s)))))))"
proof -
  let ?s' = "snd (consumeProduct n r s)"
  from assms(2) have pos: "\<not> dle r dzero" by (rule positive_not_le_zero)
  from assms(3) have enough: "\<not> dlt (getQuantity p) r" by (rule le_not_lt)
  note pr = products_consumeProduct [OF assms(1) pos enough]
  have out: "fst (consumeProduct n r s) = []"
    using assms(1) pos enough by (simp add: consumeProduct_def Let_def)
  have log: "history ?s' = history s @ [''Consumed '' @ to_string r @ '' of '' @ n]"
    using assms(1) pos enough by (simp add: consumeProduct_def logAction_def Let_def)
  have at_n: "map_of (products ?s') n
       = (if deq (dsub (getQuantity p) r) dzero then None
          else Some (p\<lparr>quantity := dsub (getQuantity p) r\<rparr>))"
    by (simp add: pr update_conv' delete_conv' consumeQuantity_def getQuantity_def)
  have others: "map_of (products ?s') k = map_of (products s) k" if "k \<noteq> n" for k
    using that by (simp add: pr update_conv' delete_conv')
  have erased: "products ?s' = AList.delete n (AList.update n (consumeQuantity r p) (products s))"
    if "is_finite (getQuantity p)" and "deq r (getQuantity p)"
  proof -
    from that have "deq (dsub (getQuantity p) r) dzero" by (rule dsub_equal_finite)
    with pr show ?thesis by (simp only: if_True)
  qed
  have gone: "n \<notin> fst ` set (products ?s')"
    if "is_finite (getQuantity p)" and "deq r (getQuantity p)"
    by (simp add: erased [OF that] delete_notin_dom)
  have status: "StatusLine n q d \<notin> set (fst (showStatus ?s'))"
    if fin: "is_finite (getQuantity p)" and full: "deq r (getQuantity p)"
      and names: "keys_are_names s" for q d
  proof
    assume "StatusLine n q d \<in> set (fst (showStatus ?s'))"
    then obtain item where item: "item \<in> set (products ?s')" and nm: "getName (snd item) = n"
      by (auto simp: showStatus_def split: if_splits)
    from item have "item \<in> set (AList.delete n (AList.update n (consumeQuantity r p) (products s)))"
      by (simp only: erased [OF fin full])
    then have key: "fst item \<noteq> n"
      and upd: "item \<in> set (AList.update n (consumeQuantity r p) (products s))"
      by (simp_all add: set_delete_iff)
    from set_update_cases [OF upd] key have "item \<in> set (products s)"
      by auto
    with names have "getName (snd item) = fst item"
      by (simp add: keys_are_names_def list_all_iff)
    with nm key show False by simp
  qed
  from out log at_n others gone status show ?thesis by blast
qed

theorem consume_success_witness:
  "map_of (products fridge_milk) ''milk''
     = Some \<lparr>name = ''milk'', quantity = double_of_nat 2, expirationDate = ''2025-05-01''\<rparr> \<and>
   keys_are_names fridge_milk \<and> is_finite (double_of_nat 2) \<and>
   dlt dzero (double_of_nat 2) \<and> dle (double_of_nat 2) (double_of_nat 2) \<and>
   deq (double_of_nat 2) (double_of_nat 2) \<and>
   fst (consumeProduct ''milk'' (double_of_nat 2) fridge_milk) = [] \<and>
   history (snd (consumeProduct ''milk'' (double_of_nat 2) fridge_milk))
     = [''Inserted 2.000000 of milk'', ''Consumed 2.000000 of milk''] \<and>
   map_of (products (snd (consumeProduct ''milk'' (double_of_nat 2) fridge_milk))) ''milk''
     = None \<and>
   ''milk'' \<notin> fst ` set (products (snd (consumeProduct ''milk'' (double_of_nat 2) fridge_milk))) \<and>
   StatusLine ''milk'' (double_of_nat 2) ''2025-05-01''
     \<notin> set (fst (showStatus (snd (consumeProduct ''milk'' (double_of_nat 2) fridge_milk)))) \<and>
   dlt dzero (double_of_nat 1) \<and> dle (double_of_nat 1) (double_of_nat 2) \<and>
   map_of (products (snd (consumeProduct ''milk'' (double_of_nat 1) fridge_milk))) ''milk''
     = Some \<lparr>name = ''milk'', quantity = double_of_nat 1, expirationDate = ''2025-05-01''\<rparr> \<and>
   map_of (products fridge_big) ''rice''
     = Some \<lparr>name = ''rice'', quantity = double_of_nat 10000000000000000,
             expirationDate = ''2030-01-01''\<rparr> \<and>
   dle (double_of_nat 1) (double_of_nat 10000000000000000) \<and>
   history (snd (consumeProduct ''rice'' (double_of_nat 1) fridge_big))
     = [''Inserted 10000000000000000.000000 of rice'', ''Consumed 1.000000 of rice''] \<and>
   map_of (products (snd (consumeProduct ''rice'' (double_of_nat 1) fridge_big))) ''rice''
     = Some \<lparr>name = ''rice'', quantity = double_of_nat 10000000000000000,
             expirationDate = ''2030-01-01''\<rparr>"
proof -
  let ?p = "\<lparr>name = ''milk'', quantity = double_of_nat 2, expirationDate = ''2025-05-01''\<rparr>"
  let ?b = "\<lparr>name = ''rice'', quantity = double_of_nat 10000000000000000,
             expirationDate = ''2030-01-01''\<rparr>"
  have m: "map_of (products fridge_milk) ''milk'' = Some ?p"
    by (simp add: fridge_milk_def)
  have b: "map_of (products fridge_big) ''rice'' = Some ?b"
    by (simp add: fridge_big_def)
  have k: "keys_are_names fridge_milk"
    by (simp add: keys_are_names_def fridge_milk_def getName_def)
  have h: "history fridge_milk = [''Inserted 2.000000 of milk'']"
    and hb: "history fridge_big = [''Inserted 10000000000000000.000000 of rice'']"
    by (simp_all add: fridge_milk_def fridge_big_def)
  have q: "getQuantity ?p = double_of_nat 2" "getQuantity ?b = double_of_nat 10000000000000000"
    by (simp_all add: getQuantity_def)
  have c: "is_finite (double_of_nat 2)" "dlt dzero (double_of_nat 2)"
    "dle (double_of_nat 2) (double_of_nat 2)" "deq (double_of_nat 2) (double_of_nat 2)"
    "dlt dzero (double_of_nat 1)" "dle (double_of_nat 1) (double_of_nat 2)"
    "dle (double_of_nat 1) (double_of_nat 10000000000000000)"
    "\<not> deq (double_of_nat 1) dzero" "\<not> deq (double_of_nat 10000000000000000) dzero"
    by (simp_all add: double_of_nat_values compare_eval)
  have z: "deq (dsub (double_of_nat 2) (double_of_nat 2)) dzero"
    using c(1) c(4) by (rule dsub_equal_finite)
  from consume_success [OF m, of "double_of_nat 2"] k c z
  have 1: "fst (consumeProduct ''milk'' (double_of_nat 2) fridge_milk) = []"
    and 2: "history (snd (consumeProduct ''milk'' (double_of_nat 2) fridge_milk))
              = [''Inserted 2.000000 of milk'', ''Consumed 2.000000 of milk'']"
    and 3: "map_of (products (snd (consumeProduct ''milk'' (double_of_nat 2) fridge_milk)))
              ''milk'' = None"
    and 4: "''milk'' \<notin> fst ` set (products
              (snd (consumeProduct ''milk'' (double_of_nat 2) fridge_milk)))"
    and 5: "StatusLine ''milk'' (double_of_nat 2) ''2025-05-01''
              \<notin> set (fst (showStatus (snd (consumeProduct ''milk'' (double_of_nat 2) fridge_milk))))"
    by (simp_all add: q h to_string_values)
  from consume_success [OF m, of "double_of_nat 1"] c
  have 6: "map_of (products (snd (consumeProduct ''milk'' (double_of_nat 1) fridge_milk)))
             ''milk''
     = Some \<lparr>name = ''milk'', quantity = double_of_nat 1, expirationDate = ''2025-05-01''\<rparr>"
    by (simp add: q dsub_values)
  from consume_success [OF b, of "double_of_nat 1"] c
  have 7: "history (snd (consumeProduct ''rice'' (double_of_nat 1) fridge_big))
     = [''Inserted 10000000000000000.000000 of rice'', ''Consumed 1.000000 of rice'']"
    and 8: "map_of (products (snd (consumeProduct ''rice'' (double_of_nat 1) fridge_big)))
              ''rice'' = Some ?b"
    by (simp_all add: q hb dsub_values to_string_values)
  from m b k c 1 2 3 4 5 6 7 8 show ?thesis by simp
qed

section \<open>Reachable states\<close>

text \<open>
  Reachable states have one entry per name, each product stored under its own name: the
  side conditions on the ledger used above for lookups and for the status listing hold
  in all of them.
\<close>

lemma keys_are_names_update:
  "list_all (\<lambda>item. getName (snd item) = fst item) al \<Longrightarrow> getName v = k \<Longrightarrow>
   list_all (\<lambda>item. getName (snd item) = fst item) (AList.update k v al)"
  by (auto simp: list_all_iff dest: set_update_cases)

lemma keys_are_names_delete:
  "list_all (\<lambda>item. getName (snd item) = fst item) al \<Longrightarrow>
   list_all (\<lambda>item. getName (snd item) = fst item) (AList.delete k al)"
  by (simp add: list_all_iff set_delete_iff)

lemma getName_simps:
  "getName (addQuantity q p) = getName p"
  "getName (consumeQuantity q p) = getName p"
  "getName \<lparr>name = n, quantity = q, expirationDate = d\<rparr> = n"
  by (simp_all add: getName_def addQuantity_def consumeQuantity_def)

lemma reachable_wellformed:
  "reachable s \<Longrightarrow> distinct (map fst (products s)) \<and> keys_are_names s"
proof (induction rule: reachable.induct)
  case start
  then show ?case by (simp add: empty_refrigerator_def keys_are_names_def)
next
  case (insert s n q d)
  have "getName p = n" if "map_of (products s) n = Some p" for p
  proof -
    from that have "(n, p) \<in> set (products s)" by (rule map_of_SomeD)
    with insert.IH show ?thesis by (auto simp: keys_are_names_def list_all_iff)
  qed
  with insert.IH show ?case
    by (auto simp: insertProduct_def logAction_def Let_def keys_are_names_def distinct_update
        getName_simps intro!: keys_are_names_update split: option.splits)
next
  case (consume s n q)
  have "getName p = n" if "map_of (products s) n = Some p" for p
  proof -
    from that have "(n, p) \<in> set (products s)" by (rule map_of_SomeD)
    with consume.IH show ?thesis by (auto simp: keys_are_names_def list_all_iff)
  qed
  then show ?case using consume.IH
    by (auto simp: consumeProduct_def logAction_def Let_def keys_are_names_def distinct_update
        distinct_delete getName_simps delete_update_same
        intro!: keys_are_names_update keys_are_names_delete split: option.splits)
next
  case (status s)
  then show ?case by (simp add: snd_showStatus)
next
  case (history s)
  then show ?case by (simp add: snd_showHistory)
next
  case (expire s d)
  then show ?case
    by (simp add: products_checkExpirations keys_are_names_def distinct_map_filter list_all_iff)
next
  case (shopping s)
  then show ?case by (simp add: snd_generateShoppingList)
qed

text \<open>
  C8. The claim: in every reachable state every stored item has a quantity strictly
  greater than zero. The test \<open>productQuantity <= 0\<close> of \<open>insertProduct\<close> is false for
  NaN, so \<open>insertProduct("milk", NaN, "2025-05-01")\<close> on the empty refrigerator succeeds
  and stores the quantity NaN, which is not greater than zero.
\<close>

theorem nan_is_stored:
  "fst (insertProduct ''milk'' NaN ''2025-05-01'' empty_refrigerator) = [] \<and>
   map_of (products (snd (insertProduct ''milk'' NaN ''2025-05-01'' empty_refrigerator))) ''milk''
     = Some \<lparr>name = ''milk'', quantity = NaN, expirationDate = ''2025-05-01''\<rparr> \<and>
   \<not> dlt dzero (getQuantity \<lparr>name = ''milk'', quantity = NaN, expirationDate = ''2025-05-01''\<rparr>)"
  by (simp add: insertProduct_def logAction_def empty_refrigerator_def getQuantity_def
      dlt_def dle_def)

lemma nan_state_reachable:
  "reachable (snd (insertProduct ''milk'' NaN ''2025-05-01'' empty_refrigerator))"
  by (intro reachable.insert reachable.start)

section \<open>The shopping list\<close>

lemma round_ratio_values:
  "round_ratio False 5000000 1000000 = double_of_nat 5"
  "round_ratio False 2000000 1000000 = double_of_nat 2"
  "round_ratio False 0 1000000 = dzero"
  by (simp_all add: double_eval)

lemma stod_values:
  "stod ''5.000000'' = Inr (double_of_nat 5)"
  "stod ''2.000000'' = Inr (double_of_nat 2)"
  "stod ''0.000000'' = Inr dzero"
proof -
  have f: "is_finite (double_of_nat 5)" "is_finite (double_of_nat 2)" "is_finite dzero"
    by (simp_all add: double_of_nat_values dzero_def)
  have d: "digits_val ''5000000'' = 5000000" "digits_val ''2000000'' = 2000000"
    "digits_val ''0000000'' = 0"
    by (simp_all add: digits_val_def digit_val_def)
  show "stod ''5.000000'' = Inr (double_of_nat 5)"
    by (simp add: stod_def parse_sign_def is_space_def is_digit_def parse_exponent_def d
        round_ratio_values f)
  show "stod ''2.000000'' = Inr (double_of_nat 2)"
    by (simp add: stod_def parse_sign_def is_space_def is_digit_def parse_exponent_def d
        round_ratio_values f)
  show "stod ''0.000000'' = Inr dzero"
    by (simp add: stod_def parse_sign_def is_space_def is_digit_def parse_exponent_def d
        round_ratio_values f)
qed

lemma dadd_zero_values:
  "dadd dzero (double_of_nat 5) = double_of_nat 5"
  "dadd dzero (double_of_nat 2) = double_of_nat 2"
  "dadd dzero dzero = dzero"
  by (simp_all add: dzero_def double_of_nat_values round_ratio_def bit_length.simps
      div_half_even_def at_least_pow2_def Let_def)

lemma parse_inserted_Consumed:
  "parse_history [''Inserted 5.000000 of Consumed''] [] = Inr [(''Consumed'', double_of_nat 5)]"
  by (simp add: string_find_def npos_def substr_def stod_values add_consumption_def
      dadd_zero_values)

lemma parse_tiny:
  "parse_history [''Inserted 1.000000 of juice'', ''Consumed 0.000000 of juice''] []
     = Inr [(''juice'', dzero)]"
  by (simp add: string_find_def npos_def substr_def stod_values add_consumption_def
      dadd_zero_values)

lemma history_insert_Consumed:
  "history (snd (insertProduct ''Consumed'' (double_of_nat 5) ''2025-01-01'' empty_refrigerator))
     = [''Inserted 5.000000 of Consumed'']"
proof -
  have "\<not> dle (double_of_nat 5) dzero"
    by (simp add: double_of_nat_values compare_eval)
  then show ?thesis
    by (simp add: history_insertProduct empty_refrigerator_def to_string_values)
qed

lemma history_juice:
  "history (snd (consumeProduct ''juice'' tiny
      (snd (insertProduct ''juice'' (double_of_nat 1) ''2025-03-01'' empty_refrigerator))))
     = [''Inserted 1.000000 of juice'', ''Consumed 0.000000 of juice'']"
proof -
  let ?s1 = "snd (insertProduct ''juice'' (double_of_nat 1) ''2025-03-01'' empty_refrigerator)"
  have c: "\<not> dle (double_of_nat 1) dzero" "\<not> dle tiny dzero" "\<not> dlt (double_of_nat 1) tiny"
    by (simp_all add: double_of_nat_values tiny_value compare_eval)
  have h1: "history ?s1 = [''Inserted 1.000000 of juice'']"
    using c by (simp add: history_insertProduct empty_refrigerator_def to_string_values)
  have p1: "products ?s1
     = [(''juice'', \<lparr>name = ''juice'', quantity = double_of_nat 1,
                      expirationDate = ''2025-03-01''\<rparr>)]"
    using c by (simp add: insertProduct_def logAction_def empty_refrigerator_def)
  have ok: "fst (consumeProduct ''juice'' tiny ?s1) = []"
    unfolding consumeProduct_def p1 using c by (simp add: getQuantity_def Let_def)
  show ?thesis
    unfolding history_consumeProduct ok h1 by (simp add: to_string_values)
qed

text \<open>
  C5. The claim: the shopping list has one entry for each name with a consumption, its
  total being the sum of the quantities consumed under that name, and no entry for a name
  that was never consumed. The parsing loop takes every record that contains the text
  \<open>Consumed\<close>, also the record of an insert whose product name contains it: after the one
  operation \<open>insertProduct("Consumed", 5, "2025-01-01")\<close> on the empty refrigerator the
  log holds that one record, and the list suggests to buy 5 of it. And the
  record holds the quantity with six decimals only: after inserting 1 and consuming
  0.0000004 of juice, the total listed for juice is 0.
\<close>

theorem shopping_list_reads_insert_record:
  "history (snd (insertProduct ''Consumed'' (double_of_nat 5) ''2025-01-01'' empty_refrigerator))
     = [''Inserted 5.000000 of Consumed''] \<and>
   fst (generateShoppingList
          (snd (insertProduct ''Consumed'' (double_of_nat 5) ''2025-01-01'' empty_refrigerator)))
     = Inr [ShoppingHeader, ShoppingLine ''Consumed'' (double_of_nat 5)] \<and>
   history (snd (consumeProduct ''juice'' tiny
                   (snd (insertProduct ''juice'' (double_of_nat 1) ''2025-03-01''
                           empty_refrigerator))))
     = [''Inserted 1.000000 of juice'', ''Consumed 0.000000 of juice''] \<and>
   fst (generateShoppingList
          (snd (consumeProduct ''juice'' tiny
             (snd (insertProduct ''juice'' (double_of_nat 1) ''2025-03-01''
                     empty_refrigerator)))))
     = Inr [ShoppingHeader, ShoppingLine ''juice'' dzero]"
proof -
  have 1: "fst (generateShoppingList
          (snd (insertProduct ''Consumed'' (double_of_nat 5) ''2025-01-01'' empty_refrigerator)))
     = Inr [ShoppingHeader, ShoppingLine ''Consumed'' (double_of_nat 5)]"
    unfolding generateShoppingList_def history_insert_Consumed parse_inserted_Consumed
    by simp
  have 2: "fst (generateShoppingList
          (snd (consumeProduct ''juice'' tiny
             (snd (insertProduct ''juice'' (double_of_nat 1) ''2025-03-01''
                     empty_refrigerator)))))
     = Inr [ShoppingHeader, ShoppingLine ''juice'' dzero]"
    unfolding generateShoppingList_def history_juice parse_tiny
    by simp
  from 1 2 history_insert_Consumed history_juice show ?thesis by simp
qed

text \<open>
  The run insert juice 4, consume juice 2: the list has the one entry juice with 2.
\<close>

lemma juice_scenario:
  "fst (generateShoppingList
          (snd (consumeProduct ''juice'' (double_of_nat 2)
             (snd (insertProduct ''juice'' (double_of_nat 4) ''2025-03-01''
                     empty_refrigerator)))))
     = Inr [ShoppingHeader, ShoppingLine ''juice'' (double_of_nat 2)]"
proof -
  let ?s1 = "snd (insertProduct ''juice'' (double_of_nat 4) ''2025-03-01'' empty_refrigerator)"
  let ?s2 = "snd (consumeProduct ''juice'' (double_of_nat 2) ?s1)"
  have c: "\<not> dle (double_of_nat 4) dzero" "\<not> dle (double_of_nat 2) dzero"
    "\<not> dlt (double_of_nat 4) (double_of_nat 2)"
    by (simp_all add: double_of_nat_values compare_eval)
  have h1: "history ?s1 = [''Inserted 4.000000 of juice'']"
    using c by (simp add: history_insertProduct empty_refrigerator_def to_string_values)
  have p1: "products ?s1
     = [(''juice'', \<lparr>name = ''juice'', quantity = double_of_nat 4,
                      expirationDate = ''2025-03-01''\<rparr>)]"
    using c by (simp add: insertProduct_def logAction_def empty_refrigerator_def)
  have ok: "fst (consumeProduct ''juice'' (double_of_nat 2) ?s1) = []"
    unfolding consumeProduct_def p1 using c by (simp add: getQuantity_def Let_def)
  have h2: "history ?s2 = [''Inserted 4.000000 of juice'', ''Consumed 2.000000 of juice'']"
    unfolding history_consumeProduct ok h1 by (simp add: to_string_values)
  have p: "parse_history [''Inserted 4.000000 of juice'', ''Consumed 2.000000 of juice''] []
             = Inr [(''juice'', double_of_nat 2)]"
    by (simp add: string_find_def npos_def substr_def stod_values add_consumption_def
        dadd_zero_values)
  show ?thesis
    unfolding generateShoppingList_def h2 p by simp
qed

end
